theory Spec2Isabelle
  imports Main
begin

section \<open>The webview bridge: endpoint, transport client and command router\<close>

text \<open>
  A shallow embedding of \<^verbatim>\<open>webviewBrige.contribution.ts\<close>. The class
  \<^verbatim>\<open>MessageCenterClient\<close> is a record of its four fields; each method and each
  socket event handler is a function from the client to the client after the call, the
  list of effects it had on the outside (in program order) and the exception that
  escaped it, if any. What the platform supplies (the token prompt's answer,
  \<^verbatim>\<open>JSON.stringify\<close>, \<^verbatim>\<open>JSON.parse\<close>, the listeners' behaviour, the socket's
  ready state) is an argument of the model.
\<close>

subsection \<open>Values and errors\<close>

datatype js_error = TypeError | SyntaxError | Raised string

text \<open>
  The values \<^verbatim>\<open>JSON.parse\<close> produces, and \<^verbatim>\<open>undefined\<close> for a property
  that is not there. The router compares them with string literals and reads
  properties only, so a number is kept as an integer.
\<close>

datatype js_value =
    Undefined
  | Null
  | Bool bool
  | Num int
  | Str string
  | Arr "js_value list"
  | Obj "(string \<times> js_value) list"

subsection \<open>The endpoint (lines 16-19)\<close>

definition is_digit :: "char \<Rightarrow> bool" where
  "is_digit c = (c \<in> set ''0123456789'')"

text \<open>
  \<^verbatim>\<open>navigator.userAgent.match(/port\/(\d*)/)\<close>: \<open>None\<close> is \<^verbatim>\<open>null\<close>,
  \<open>Some ds\<close> is a match whose group 1 is \<open>ds\<close>. The engine tries each start
  position from the left; at a position where \<^verbatim>\<open>port/\<close> stands the greedy
  \<^verbatim>\<open>\d*\<close> takes the longest run of digits, which may be empty, and the match
  succeeds.
\<close>

fun match_port :: "string \<Rightarrow> string option" where
  "match_port [] = None"
| "match_port (c # cs) =
     (if take 5 (c # cs) = ''port/'' then Some (takeWhile is_digit (drop 5 (c # cs)))
      else match_port cs)"

text \<open>
  A JavaScript number as far as this file computes one: \<^verbatim>\<open>NaN\<close>,
  \<^verbatim>\<open>Infinity\<close>, or a finite double that is a natural number, kept as that number.
\<close>

datatype js_number = NaN | Infinity | Finite nat

definition digit_value :: "char \<Rightarrow> nat" where
  "digit_value c = of_char c - 48"

fun bit_length :: "nat \<Rightarrow> nat" where
  "bit_length n = (if n = 0 then 0 else Suc (bit_length (n div 2)))"

text \<open>
  The double nearest to a natural number, ties to the even significand: below \<open>2 ^ 53\<close>
  the number itself, above it the number cut to its 53 leading bits and rounded. The
  result is the double's exact value; from \<open>2 ^ 1024\<close> it stands for an overflow.
\<close>

definition round_to_double :: "nat \<Rightarrow> nat" where
  "round_to_double n =
     (if n < 2 ^ 53 then n
      else
        (let e = bit_length n - 53;
             q = n div 2 ^ e;
             r = n mod 2 ^ e;
             half = 2 ^ (e - 1)
         in (if half < r \<or> (r = half \<and> odd q) then Suc q else q) * 2 ^ e))"

definition to_number :: "nat \<Rightarrow> js_number" where
  "to_number n = (let x = round_to_double n in if x < 2 ^ 1024 then Finite x else Infinity)"

text \<open>
  \<^verbatim>\<open>parseInt(s, 10)\<close> on a string without leading white space or sign (the
  capture has neither): the longest prefix of digits is read; when it is empty the
  result is \<^verbatim>\<open>NaN\<close>, else the double nearest to the integer the digits denote
  (all digits are read, as the engines do; the language lets an implementation zero
  those after the 20th).
\<close>

definition parseInt :: "string \<Rightarrow> js_number" where
  "parseInt s =
     (let ds = takeWhile is_digit s
      in if ds = [] then NaN else to_number (foldl (\<lambda>n d. 10 * n + digit_value d) 0 ds))"

fun decimal :: "nat \<Rightarrow> string" where
  "decimal n =
     (if n < 10 then [''0123456789'' ! n]
      else decimal (n div 10) @ [''0123456789'' ! (n mod 10)])"

text \<open>
  The digits a double \<open>x\<close> of \<open>2 ^ 53\<close> or more prints with: \<open>(s, k, n)\<close> such that
  \<open>s\<close> has \<open>k\<close> digits, \<open>s * 10 ^ (n - k)\<close> rounds to \<open>x\<close> and \<open>k\<close> is as small as
  can be; of two such \<open>s\<close> the one nearer to \<open>x\<close>. \<open>candidates x k n\<close> are the
  \<open>s\<close> for one \<open>k\<close> and \<open>n\<close>: only the two multiples of \<open>10 ^ (n - k)\<close> around
  \<open>x\<close> can be nearest. \<open>n\<close> is the number of digits of \<open>x\<close> or one more, and with all
  the digits of \<open>x\<close> itself the search ends.
\<close>

definition candidates :: "nat \<Rightarrow> nat \<Rightarrow> nat \<Rightarrow> (nat \<times> nat \<times> nat) list" where
  "candidates x k n =
     (let p = n - k;
          s0 = x div 10 ^ p;
          ok = filter (\<lambda>s. 10 ^ (k - 1) \<le> s \<and> s < 10 ^ k \<and> round_to_double (s * 10 ^ p) = x)
                 [s0, Suc s0]
      in case ok of
           [] \<Rightarrow> []
         | [s] \<Rightarrow> [(s, k, n)]
         | a # b # _ \<Rightarrow>
             (let da = x - a * 10 ^ p; db = b * 10 ^ p - x
              in if da < db then [(a, k, n)]
                 else if db < da then [(b, k, n)]
                 else if even a then [(a, k, n)] else [(b, k, n)]))"

definition shortest_digits :: "nat \<Rightarrow> nat \<times> nat \<times> nat" where
  "shortest_digits x =
     (let d = length (decimal x)
      in case concat (map (\<lambda>k. candidates x k d @ candidates x k (Suc d)) [1..<Suc d]) of
           [] \<Rightarrow> (x, d, d)
         | skn # _ \<Rightarrow> skn)"

text \<open>
  The text a template literal gives a number (\<^verbatim>\<open>Number::toString\<close>). A natural
  number below \<open>2 ^ 53\<close> prints as its decimal digits. A larger double prints its
  shortest digits, filled with zeros up to 21 places and with an exponent beyond.
\<close>

definition number_to_string :: "js_number \<Rightarrow> string" where
  "number_to_string x =
     (case x of
        NaN \<Rightarrow> ''NaN''
      | Infinity \<Rightarrow> ''Infinity''
      | Finite m \<Rightarrow>
          if m < 2 ^ 53 then decimal m
          else
            (case shortest_digits m of
               (s, k, n) \<Rightarrow>
                 if n \<le> 21 then decimal s @ replicate (n - k) (CHR ''0'')
                 else if k = 1 then decimal s @ ''e+'' @ decimal (n - 1)
                 else take 1 (decimal s) @ ''.'' @ drop 1 (decimal s) @ ''e+'' @ decimal (n - 1)))"

text \<open>
  \<^verbatim>\<open>const port = navigator.userAgent.match(/port\/(\d*)/);\<close>
  \<^verbatim>\<open>const url = `ws://127.0.0.1:${port ? parseInt(port[1], 10) : 9974}`;\<close>
\<close>

definition port_number :: "string \<Rightarrow> js_number" where
  "port_number userAgent =
     (case match_port userAgent of
        Some group1 \<Rightarrow> parseInt group1
      | None \<Rightarrow> Finite 9974)"

definition url :: "string \<Rightarrow> string" where
  "url userAgent = ''ws://127.0.0.1:'' @ number_to_string (port_number userAgent)"

subsection \<open>The transport client (lines 27-119)\<close>

datatype ready_state = CONNECTING | OPEN | CLOSING | CLOSED

record websocket =
  ws_url :: string
  ws_protocol :: string
  readyState :: ready_state

text \<open>
  A listener is judged by whether a call of it returns (\<open>None\<close>) or throws; what it
  does besides (the router's calls of the workbench services) happens outside the client,
  whose fields it is taken not to touch. The argument of \<^verbatim>\<open>registerCallback\<close> is
  any value: a function, or something that \<^verbatim>\<open>typeof\<close> does not call a function.
\<close>

datatype 'm js_arg = Function "'m \<Rightarrow> js_error option" | NotCallable js_value

record 'm client =
  protocol :: string
  ws :: "websocket option"
  msgQueue :: "'m list"
  callback :: "'m js_arg list"

datatype task = ConnectTask

datatype log_arg = Exn js_error | ErrorEvent

text \<open>
  What a call does to the outside, in program order: \<open>Invoke i msg\<close> is the call of the
  listener at index \<open>i\<close> of \<^verbatim>\<open>_callback\<close> with \<open>msg\<close>; \<open>WsSend t\<close> is
  \<^verbatim>\<open>this._ws.send(t)\<close>; \<open>SetTimeout k ms\<close> is \<^verbatim>\<open>setTimeout\<close> of task \<open>k\<close> with
  delay \<open>ms\<close>.
\<close>

datatype 'm effect =
    Prompt string
  | NewWebSocket string string
  | WsSend string
  | SetTimeout task nat
  | AddLoadListener task
  | Invoke nat 'm
  | ConsoleError string "log_arg list"

type_synonym 'm result = "'m client \<times> 'm effect list \<times> js_error option"

text \<open>The constructor; \<open>complete\<close> is \<^verbatim>\<open>document.readyState === 'complete'\<close>.\<close>

definition MessageCenterClient :: "string \<Rightarrow> bool \<Rightarrow> 'm result" where
  "MessageCenterClient protocol' complete =
     (\<lparr>protocol = protocol', ws = None, msgQueue = [], callback = []\<rparr>,
      [if complete then SetTimeout ConnectTask 0 else AddLoadListener ConnectTask],
      None)"

text \<open>
  \<^verbatim>\<open>connect\<close>, given the module's \<^verbatim>\<open>url\<close> and the answer \<open>e\<close> of the prompt
  (\<open>None\<close> is \<^verbatim>\<open>null\<close>). \<open>construct\<close> is the \<^verbatim>\<open>WebSocket\<close> constructor:
  \<open>None\<close> when it returns a socket, else the exception it throws (a URL or a subprotocol
  it rejects), which leaves \<^verbatim>\<open>connect\<close> before the handle is assigned. The new
  socket starts in \<open>CONNECTING\<close>; its four handlers are the functions \<open>onopen\<close>,
  \<open>onclose\<close>, \<open>onmessage\<close> and \<open>onerror\<close> below.
\<close>

definition connect ::
  "(string \<Rightarrow> string \<Rightarrow> js_error option) \<Rightarrow> string \<Rightarrow> string option \<Rightarrow> 'm client \<Rightarrow>
   'm result" where
  "connect construct u e c =
     (case e of
        None \<Rightarrow>
          (c, [Prompt ''GET_MESSAGE_TOKEN'', ConsoleError ''Failed to get message token.'' []], None)
      | Some token \<Rightarrow>
          (let subProtocol = protocol c @ ''#'' @ token @ ''#''
           in case construct u subProtocol of
                Some err \<Rightarrow>
                  (c, [Prompt ''GET_MESSAGE_TOKEN'', NewWebSocket u subProtocol], Some err)
              | None \<Rightarrow>
                  (c\<lparr>ws := Some \<lparr>ws_url = u, ws_protocol = subProtocol, readyState = CONNECTING\<rparr>\<rparr>,
                   [Prompt ''GET_MESSAGE_TOKEN'', NewWebSocket u subProtocol],
                   None)))"

text \<open>\<^verbatim>\<open>this._ws && this._ws.readyState === WebSocket.OPEN\<close>\<close>

definition is_open :: "'m client \<Rightarrow> bool" where
  "is_open c = (case ws c of None \<Rightarrow> False | Some w \<Rightarrow> readyState w = OPEN)"

text \<open>
  \<^verbatim>\<open>send\<close>. \<open>stringify\<close> is \<^verbatim>\<open>JSON.stringify\<close>: the text it returns, or the
  error it throws (a cyclic structure, a BigInt), which leaves \<^verbatim>\<open>send\<close> uncaught.
\<close>

definition send :: "('m \<Rightarrow> js_error + string) \<Rightarrow> 'm client \<Rightarrow> 'm \<Rightarrow> 'm result" where
  "send stringify c msg =
     (if is_open c then
        (case stringify msg of
           Inl err \<Rightarrow> (c, [], Some err)
         | Inr text \<Rightarrow> (c, [WsSend text], None))
      else (c\<lparr>msgQueue := msgQueue c @ [msg]\<rparr>, [], None))"

text \<open>
  \<^verbatim>\<open>msgQueue.forEach((msg) => { this.send(msg); })\<close>: an exception ends the loop
  and the messages after it are not sent.
\<close>

fun send_each :: "('m \<Rightarrow> js_error + string) \<Rightarrow> 'm client \<Rightarrow> 'm list \<Rightarrow> 'm result" where
  "send_each stringify c [] = (c, [], None)"
| "send_each stringify c (msg # msgs) =
     (case send stringify c msg of
        (c', es, Some err) \<Rightarrow> (c', es, Some err)
      | (c', es, None) \<Rightarrow>
          (case send_each stringify c' msgs of (c'', es', r) \<Rightarrow> (c'', es @ es', r)))"

definition onopen :: "('m \<Rightarrow> js_error + string) \<Rightarrow> 'm client \<Rightarrow> 'm result" where
  "onopen stringify c =
     (let msgQueue' = msgQueue c
      in send_each stringify (c\<lparr>msgQueue := []\<rparr>) msgQueue')"

definition onclose :: "'m client \<Rightarrow> 'm result" where
  "onclose c = (c\<lparr>ws := None\<rparr>, [SetTimeout ConnectTask 1000], None)"

text \<open>
  One turn of \<^verbatim>\<open>this._callback.forEach\<close>: \<^verbatim>\<open>cb.call(this, msg)\<close> inside its
  own \<^verbatim>\<open>try\<close>. Calling what is not a function throws a TypeError, caught like any
  other.
\<close>

definition call_listener :: "nat \<Rightarrow> 'm js_arg \<Rightarrow> 'm \<Rightarrow> 'm effect list" where
  "call_listener i cb msg =
     (case cb of
        Function f \<Rightarrow>
          Invoke i msg #
            (case f msg of
               None \<Rightarrow> []
             | Some err \<Rightarrow> [ConsoleError ''Error in message callback:'' [Exn err]])
      | NotCallable v \<Rightarrow> [ConsoleError ''Error in message callback:'' [Exn TypeError]])"

fun dispatch :: "nat \<Rightarrow> 'm js_arg list \<Rightarrow> 'm \<Rightarrow> 'm effect list" where
  "dispatch i [] msg = []"
| "dispatch i (cb # cbs) msg = call_listener i cb msg @ dispatch (Suc i) cbs msg"

text \<open>
  \<^verbatim>\<open>onmessage\<close> on a frame whose \<^verbatim>\<open>event.data\<close> is the text \<open>msgJSON\<close>;
  \<open>parse\<close> is \<^verbatim>\<open>JSON.parse\<close>.
\<close>

definition onmessage :: "(string \<Rightarrow> js_error + 'm) \<Rightarrow> 'm client \<Rightarrow> string \<Rightarrow> 'm result" where
  "onmessage parse c msgJSON =
     (case parse msgJSON of
        Inl err \<Rightarrow> (c, [ConsoleError ''Failed to parse message:'' [Exn err]], None)
      | Inr msg \<Rightarrow> (c, dispatch 0 (callback c) msg, None))"

definition onerror :: "'m client \<Rightarrow> 'm result" where
  "onerror c = (c, [ConsoleError ''WebSocket error:'' [ErrorEvent]], None)"

text \<open>\<^verbatim>\<open>typeof callback === 'function'\<close>\<close>

definition is_function :: "'m js_arg \<Rightarrow> bool" where
  "is_function cb = (case cb of Function f \<Rightarrow> True | NotCallable v \<Rightarrow> False)"

definition registerCallback :: "'m client \<Rightarrow> 'm js_arg \<Rightarrow> 'm result" where
  "registerCallback c cb =
     (if is_function cb then (c\<lparr>callback := callback c @ [cb]\<rparr>, [], None)
      else (c, [], None))"

text \<open>
  Everything that can happen to a client once it is constructed: a call of one of its
  methods, one of the four socket events, or the platform changing the ready state of the
  socket behind the handle. \<open>step\<close> is the client after it; an exception that escapes
  leaves the fields as they were at that moment.
\<close>

definition set_readyState :: "ready_state \<Rightarrow> 'm client \<Rightarrow> 'm client" where
  "set_readyState rs c = c\<lparr>ws := map_option (\<lambda>w. w\<lparr>readyState := rs\<rparr>) (ws c)\<rparr>"

datatype 'm event =
    Connect "string option"
  | Send 'm
  | RegisterCallback "'m js_arg"
  | Opened
  | Closed
  | Frame string
  | Errored
  | ReadyState ready_state

record 'm platform =
  endpoint :: string
  websocket_ctor :: "string \<Rightarrow> string \<Rightarrow> js_error option"
  json_stringify :: "'m \<Rightarrow> js_error + string"
  json_parse :: "string \<Rightarrow> js_error + 'm"

definition step :: "'m platform \<Rightarrow> 'm client \<Rightarrow> 'm event \<Rightarrow> 'm client" where
  "step P c ev =
     (case ev of
        Connect e \<Rightarrow> fst (connect (websocket_ctor P) (endpoint P) e c)
      | Send msg \<Rightarrow> fst (send (json_stringify P) c msg)
      | RegisterCallback cb \<Rightarrow> fst (registerCallback c cb)
      | Opened \<Rightarrow> fst (onopen (json_stringify P) c)
      | Closed \<Rightarrow> fst (onclose c)
      | Frame msgJSON \<Rightarrow> fst (onmessage (json_parse P) c msgJSON)
      | Errored \<Rightarrow> fst (onerror c)
      | ReadyState rs \<Rightarrow> set_readyState rs c)"

definition run :: "'m platform \<Rightarrow> 'm client \<Rightarrow> 'm event list \<Rightarrow> 'm client" where
  "run P c evs = foldl (step P) c evs"

text \<open>
  How the platform reports that the connection is gone. It sets the socket's ready state
  to \<open>CLOSED\<close> and then fires its events, each of which runs its handler: after a clean
  closing handshake the close event alone; after a failure of the connection the error
  event and, after it, the close event. An error event never comes without the close
  event behind it.
\<close>

datatype loss = CleanClose | Failure

definition transport_loss :: "loss \<Rightarrow> 'm client \<Rightarrow> 'm result" where
  "transport_loss how c =
     (let c0 = set_readyState CLOSED c
      in case how of
           CleanClose \<Rightarrow> onclose c0
         | Failure \<Rightarrow>
             (case onerror c0 of
                (c1, es1, r1) \<Rightarrow>
                  (case onclose c1 of
                     (c2, es2, r2) \<Rightarrow>
                       (c2, es1 @ es2, case r1 of Some err \<Rightarrow> Some err | None \<Rightarrow> r2))))"

text \<open>The arguments of the \<^verbatim>\<open>registerCallback\<close> calls of a run, in call order.\<close>

fun registered :: "'m event list \<Rightarrow> 'm js_arg list" where
  "registered [] = []"
| "registered (RegisterCallback cb # evs) = cb # registered evs"
| "registered (ev # evs) = registered evs"

subsection \<open>The command router (lines 121-171)\<close>

text \<open>
  Reading a property of a value that is neither \<^verbatim>\<open>null\<close> nor
  \<^verbatim>\<open>undefined\<close>, for the names the router reads (\<^verbatim>\<open>command\<close>,
  \<^verbatim>\<open>data\<close>, \<^verbatim>\<open>filePath\<close>): only an object can have them. An object is
  the list of its own properties, each name once.
\<close>

fun get_prop :: "js_value \<Rightarrow> string \<Rightarrow> js_value" where
  "get_prop (Obj kvs) k = (case map_of kvs k of None \<Rightarrow> Undefined | Some v \<Rightarrow> v)"
| "get_prop v k = Undefined"

definition nullish :: "js_value \<Rightarrow> bool" where
  "nullish v = (v = Undefined \<or> v = Null)"

text \<open>The method of the contribution that the listener calls, with its argument.\<close>

datatype router_call =
    CallOpenFile js_value
  | CallChangeTheme string
  | CallChangeLanguage string

text \<open>
  The listener registered by \<^verbatim>\<open>init\<close>: the call it makes (\<open>None\<close> when no
  \<^verbatim>\<open>case\<close> matches), or the TypeError of destructuring a nullish message or of
  reading \<^verbatim>\<open>data.filePath\<close> from a nullish \<^verbatim>\<open>data\<close>. The three methods are
  \<^verbatim>\<open>async\<close>: calling one does not throw.
\<close>

definition router :: "js_value \<Rightarrow> js_error + router_call option" where
  "router msg =
     (if nullish msg then Inl TypeError
      else
        (let command = get_prop msg ''command''; data = get_prop msg ''data''
         in if command = Str ''openFile'' then
              (if nullish data then Inl TypeError
               else Inr (Some (CallOpenFile (get_prop data ''filePath''))))
            else if command = Str ''updateTheme'' then
              (let themeId = (if data = Str ''theme-2'' then ''Visual Studio Light'' else ''Default Dark+'')
               in Inr (Some (CallChangeTheme themeId)))
            else if command = Str ''updateLocale'' then
              (let locale = (if data = Str ''zh-CN'' then ''zh-CN'' else ''en'')
               in Inr (Some (CallChangeLanguage locale)))
            else Inr None))"

text \<open>How an \<^verbatim>\<open>async\<close> method ends: its promise is fulfilled, or rejected with an error.\<close>

datatype promise = Fulfilled | Rejected js_error

datatype service_call =
    OpenEditor string bool
  | LogError string "log_arg list"

text \<open>
  \<^verbatim>\<open>openFile\<close>. \<open>folders\<close> are the \<^verbatim>\<open>uri\<close>s of
  \<^verbatim>\<open>workspaceContextService.getWorkspace().folders\<close>; \<open>joinPath\<close> is
  \<^verbatim>\<open>URI.joinPath\<close> and \<open>openEditor\<close> the editor service's answer for a
  resource (\<open>None\<close>: opened). \<open>OpenEditor r p\<close> is the request with resource \<open>r\<close> and
  \<^verbatim>\<open>pinned: p\<close>. Reading \<^verbatim>\<open>workspaceFolders[0].uri\<close> of an empty array
  throws a TypeError; it and \<^verbatim>\<open>joinPath\<close> stand before the \<^verbatim>\<open>try\<close>.
\<close>

definition openFile ::
  "(string \<Rightarrow> string \<Rightarrow> js_error + string) \<Rightarrow> (string \<Rightarrow> js_error option) \<Rightarrow>
   string list \<Rightarrow> string \<Rightarrow> service_call list \<times> promise" where
  "openFile joinPath openEditor folders filePath =
     (case folders of
        [] \<Rightarrow> ([], Rejected TypeError)
      | folderUri # _ \<Rightarrow>
          (case joinPath folderUri filePath of
             Inl err \<Rightarrow> ([], Rejected err)
           | Inr fileUri \<Rightarrow>
               (case openEditor fileUri of
                  None \<Rightarrow> ([OpenEditor fileUri True], Fulfilled)
                | Some err \<Rightarrow>
                    ([OpenEditor fileUri True,
                      LogError (''Failed to open '' @ filePath @ '' :'') [Exn err]],
                     Fulfilled))))"

subsection \<open>Concrete instances\<close>

text \<open>
  A client fresh from the constructor, an open socket, the same client holding that
  socket, and a \<^verbatim>\<open>JSON.stringify\<close> and a \<^verbatim>\<open>JSON.parse\<close> cut down to the
  two messages of the replay scenario. The theorems below are instantiated at them.
\<close>

definition new_client :: "js_value client" where
  "new_client = fst (MessageCenterClient ''EXTENSION_EDITOR'' True)"

definition open_socket :: websocket where
  "open_socket =
     \<lparr>ws_url = ''ws://127.0.0.1:9974'', ws_protocol = ''EXTENSION_EDITOR#token#'',
      readyState = OPEN\<rparr>"

definition open_client :: "js_value client" where
  "open_client = new_client\<lparr>ws := Some open_socket\<rparr>"

definition sample_stringify :: "js_value \<Rightarrow> js_error + string" where
  \<open>sample_stringify v =
     (if v = Obj [(''a'', Num 1)] then Inr ''{"a":1}''
      else if v = Obj [(''b'', Num 2)] then Inr ''{"b":2}''
      else Inl TypeError)\<close>

definition sample_parse :: "string \<Rightarrow> js_error + js_value" where
  \<open>sample_parse t =
     (if t = ''{"a":1}'' then Inr (Obj [(''a'', Num 1)])
      else if t = ''{"b":2}'' then Inr (Obj [(''b'', Num 2)])
      else Inl SyntaxError)\<close>

text \<open>Three listeners, the second of which throws on every message.\<close>

definition three_listeners :: "(js_value \<Rightarrow> js_error option) list" where
  "three_listeners = [\<lambda>msg. None, \<lambda>msg. Some (Raised ''boom''), \<lambda>msg. None]"

section \<open>Properties\<close>

subsection \<open>The endpoint\<close>

lemma url_default:
  "match_port userAgent = None \<Longrightarrow> url userAgent = ''ws://127.0.0.1:9974''"
  by (simp add: url_def port_number_def number_to_string_def)

lemma url_example: "url ''Mozilla/5.0 port/8080 Chrome'' = ''ws://127.0.0.1:8080''"
  by (simp add: url_def port_number_def parseInt_def number_to_string_def is_digit_def
      digit_value_def to_number_def round_to_double_def)

text \<open>
  A port written with more digits than a double holds is rounded by \<^verbatim>\<open>parseInt\<close>,
  and from 22 digits on it prints with an exponent.
\<close>

lemma url_rounds_to_double:
  "url ''port/9007199254740993'' = ''ws://127.0.0.1:9007199254740992''"
  by (simp add: url_def port_number_def parseInt_def is_digit_def digit_value_def to_number_def
      round_to_double_def number_to_string_def shortest_digits_def candidates_def Let_def upt_rec)

lemma url_exponent: "url ''port/1000000000000000000000'' = ''ws://127.0.0.1:1e+21''"
  by (simp add: url_def port_number_def parseInt_def is_digit_def digit_value_def to_number_def
      round_to_double_def number_to_string_def shortest_digits_def candidates_def Let_def upt_rec)

text \<open>
  C4: the port is the number after \<^verbatim>\<open>port/\<close> and 9974 otherwise, so that the URL
  always carries a numeric port. The code's pattern is \<^verbatim>\<open>port\/(\d*)\<close>: on a user
  agent where \<^verbatim>\<open>port/\<close> is followed by no digit it matches with an empty group, the
  default is not taken, \<^verbatim>\<open>parseInt\<close> of the empty text is \<^verbatim>\<open>NaN\<close> and the
  URL is \<^verbatim>\<open>ws://127.0.0.1:NaN\<close>.
\<close>

theorem url_of_port_without_digits:
  "match_port ''Mozilla/5.0 port/'' = Some [] \<and>
   port_number ''Mozilla/5.0 port/'' = NaN \<and>
   url ''Mozilla/5.0 port/'' = ''ws://127.0.0.1:NaN''"
  by (simp add: url_def port_number_def parseInt_def number_to_string_def)

subsection \<open>Sending and replaying\<close>

lemma is_open_msgQueue_update [simp]: "is_open (c\<lparr>msgQueue := q\<rparr>) = is_open c"
  by (simp add: is_open_def)

lemma send_closed:
  "\<not> is_open c \<Longrightarrow> send stringify c msg = (c\<lparr>msgQueue := msgQueue c @ [msg]\<rparr>, [], None)"
  by (simp add: send_def)

lemma send_open:
  "is_open c \<Longrightarrow> stringify msg = Inr text \<Longrightarrow> send stringify c msg = (c, [WsSend text], None)"
  by (simp add: send_def)

text \<open>
  A value that \<^verbatim>\<open>JSON.stringify\<close> throws on is outside what the specification calls
  a message (a JSON-serializable value); on an open connection \<^verbatim>\<open>send\<close> lets the
  error through.
\<close>

lemma send_not_serializable:
  "is_open c \<Longrightarrow> stringify msg = Inl err \<Longrightarrow> send stringify c msg = (c, [], Some err)"
  by (simp add: send_def)

lemma send_each_closed:
  "\<not> is_open c \<Longrightarrow>
   send_each stringify c msgs = (c\<lparr>msgQueue := msgQueue c @ msgs\<rparr>, [], None)"
proof (induction msgs arbitrary: c)
  case Nil
  then show ?case by simp
next
  case (Cons msg msgs)
  have "\<not> is_open (c\<lparr>msgQueue := msgQueue c @ [msg]\<rparr>)"
    using Cons.prems by simp
  from Cons.IH [OF this] Cons.prems show ?case
    by (simp add: send_closed)
qed

lemma send_each_open:
  "is_open c \<Longrightarrow> map stringify msgs = map Inr texts \<Longrightarrow>
   send_each stringify c msgs = (c, map WsSend texts, None)"
proof (induction msgs arbitrary: texts)
  case Nil
  then show ?case by simp
next
  case (Cons msg msgs)
  from Cons.prems(2) obtain t ts where texts: "texts = t # ts" and t: "stringify msg = Inr t"
    and rest: "map stringify msgs = map Inr ts"
    by (cases texts) auto
  from Cons.IH [OF Cons.prems(1) rest] Cons.prems(1) t texts show ?case
    by (simp add: send_open)
qed

text \<open>
  Were the handle not open when \<^verbatim>\<open>onopen\<close> runs, the swap would still lose
  nothing: every message goes back on the emptied queue, in order.
\<close>

lemma onopen_not_open: "\<not> is_open c \<Longrightarrow> onopen stringify c = (c, [], None)"
  using send_each_closed [of "c\<lparr>msgQueue := []\<rparr>" stringify "msgQueue c"]
  by (simp add: onopen_def)

text \<open>
  C1: let the client be not open, with some messages already queued, and let \<open>msgs\<close> be
  passed to \<^verbatim>\<open>send\<close> one after the other. Nothing is transmitted and the queue is
  the old queue followed by \<open>msgs\<close>. When the handle then holds an open socket \<open>w\<close>,
  \<^verbatim>\<open>onopen\<close> transmits the JSON text of every queued message, each once and in
  insertion order, throws nothing and leaves the queue empty. A message is a
  JSON-serializable value: \<open>texts\<close> are the serializations.
\<close>

theorem queued_messages_replayed_in_order:
  assumes "\<not> is_open c" and "readyState w = OPEN"
    and "map stringify (msgQueue c @ msgs) = map Inr texts"
  shows "send_each stringify c msgs = (c\<lparr>msgQueue := msgQueue c @ msgs\<rparr>, [], None) \<and>
         onopen stringify (c\<lparr>ws := Some w, msgQueue := msgQueue c @ msgs\<rparr>) =
           (c\<lparr>ws := Some w, msgQueue := []\<rparr>, map WsSend texts, None)"
proof -
  let ?c = "c\<lparr>ws := Some w, msgQueue := []\<rparr>"
  have "is_open ?c" using assms(2) by (simp add: is_open_def)
  from send_each_open [OF this assms(3)]
  have "onopen stringify (c\<lparr>ws := Some w, msgQueue := msgQueue c @ msgs\<rparr>) =
          (?c, map WsSend texts, None)"
    by (simp add: onopen_def)
  with send_each_closed [OF assms(1)] show ?thesis by simp
qed

theorem queued_messages_replayed_in_order_witness:
  \<open>\<not> is_open new_client \<and> readyState open_socket = OPEN \<and>
   send_each sample_stringify new_client [Obj [(''a'', Num 1)], Obj [(''b'', Num 2)]] =
     (new_client\<lparr>msgQueue := [Obj [(''a'', Num 1)], Obj [(''b'', Num 2)]]\<rparr>, [], None) \<and>
   onopen sample_stringify
     (new_client\<lparr>ws := Some open_socket,
        msgQueue := [Obj [(''a'', Num 1)], Obj [(''b'', Num 2)]]\<rparr>) =
     (new_client\<lparr>ws := Some open_socket, msgQueue := []\<rparr>,
      [WsSend ''{"a":1}'', WsSend ''{"b":2}''], None)\<close>
proof -
  have closed: "\<not> is_open new_client"
    by (simp add: new_client_def MessageCenterClient_def is_open_def)
  have opened: "readyState open_socket = OPEN"
    by (simp add: open_socket_def)
  have texts:
    \<open>map sample_stringify (msgQueue new_client @ [Obj [(''a'', Num 1)], Obj [(''b'', Num 2)]]) =
      map Inr [''{"a":1}'', ''{"b":2}'']\<close>
    by (simp add: new_client_def MessageCenterClient_def sample_stringify_def)
  have empty: "msgQueue new_client = []"
    by (simp add: new_client_def MessageCenterClient_def)
  from queued_messages_replayed_in_order [OF closed opened texts] closed opened empty
  show ?thesis by simp
qed

text \<open>
  C2: on an open connection \<^verbatim>\<open>send\<close> hands the JSON text of the message to the
  socket, leaves the queue as it is and returns; on a connection that is not open (no
  handle, or a socket in another ready state) it appends the message to the tail of the
  queue, transmits nothing and returns. A message is a JSON-serializable value, with
  serialization \<open>text\<close>.
\<close>

theorem send_transmits_or_queues:
  "(is_open c \<and> stringify msg = Inr text \<longrightarrow>
      send stringify c msg = (c, [WsSend text], None)) \<and>
   (\<not> is_open c \<longrightarrow>
      send stringify c msg = (c\<lparr>msgQueue := msgQueue c @ [msg]\<rparr>, [], None))"
  by (simp add: send_def)

theorem send_transmits_or_queues_witness:
  \<open>is_open open_client \<and> sample_stringify (Obj [(''a'', Num 1)]) = Inr ''{"a":1}'' \<and>
   send sample_stringify open_client (Obj [(''a'', Num 1)]) =
     (open_client, [WsSend ''{"a":1}''], None) \<and>
   \<not> is_open new_client \<and>
   send sample_stringify new_client (Obj [(''a'', Num 1)]) =
     (new_client\<lparr>msgQueue := msgQueue new_client @ [Obj [(''a'', Num 1)]]\<rparr>, [], None)\<close>
proof -
  have o: "is_open open_client"
    by (simp add: open_client_def open_socket_def is_open_def)
  have t: \<open>sample_stringify (Obj [(''a'', Num 1)]) = Inr ''{"a":1}''\<close>
    by (simp add: sample_stringify_def)
  have n: "\<not> is_open new_client"
    by (simp add: new_client_def MessageCenterClient_def is_open_def)
  from send_transmits_or_queues [of open_client sample_stringify "Obj [(''a'', Num 1)]"]
    send_transmits_or_queues [of new_client sample_stringify "Obj [(''a'', Num 1)]"] o t n
  show ?thesis by simp
qed

subsection \<open>Close and error events\<close>

lemma set_readyState_then_drop [simp]: "(set_readyState rs c)\<lparr>ws := None\<rparr> = c\<lparr>ws := None\<rparr>"
  by (simp add: set_readyState_def)

text \<open>
  C3: whenever the transport reports the loss of the connection, by a close event or by
  an error event with the close event that follows it, the handlers together drop the
  handle and set exactly one timer, for \<^verbatim>\<open>connect\<close> and with the delay of 1000 ms;
  an error adds one console line and no second timer. This holds in the state reached by
  any history of events, an open client included, and so for the first loss as for any
  later one: the delay does not grow and no count of retries ends them.
\<close>

theorem transport_loss_schedules_one_reconnect:
  "transport_loss CleanClose (run P c evs) =
     ((run P c evs)\<lparr>ws := None\<rparr>, [SetTimeout ConnectTask 1000], None) \<and>
   transport_loss Failure (run P c evs) =
     ((run P c evs)\<lparr>ws := None\<rparr>,
      [ConsoleError ''WebSocket error:'' [ErrorEvent], SetTimeout ConnectTask 1000], None)"
  by (simp add: transport_loss_def onclose_def onerror_def)

subsection \<open>Inbound frames\<close>

lemma dispatch_functions:
  "dispatch k (map Function fs) msg =
     concat (map (\<lambda>i. Invoke (k + i) msg #
                   (case (fs ! i) msg of
                      None \<Rightarrow> []
                    | Some err \<Rightarrow> [ConsoleError ''Error in message callback:'' [Exn err]]))
               [0..<length fs])"
proof (induction fs arbitrary: k)
  case Nil
  show ?case by simp
next
  case (Cons f fs)
  have upt: "[0..<Suc n] = 0 # map Suc [0..<n]" for n
    unfolding map_Suc_upt by (rule upt_conv_Cons) simp
  show ?case
    by (simp add: upt Cons.IH call_listener_def comp_def del: upt_Suc)
qed

text \<open>
  C5: let the listener list hold the functions \<open>fs\<close> in registration order, and let the
  frame parse to \<open>msg\<close>. Then \<^verbatim>\<open>onmessage\<close> calls listener 0, 1, ... in that order,
  each once and with \<open>msg\<close>; a listener that throws is followed by one console error
  carrying its exception and then by the call of the next listener; nothing escapes the
  handler, and the client (handle, queue, listeners) is what it was.
\<close>

theorem onmessage_delivers_in_registration_order:
  assumes "parse msgJSON = Inr msg" and "callback c = map Function fs"
  shows "onmessage parse c msgJSON =
     (c,
      concat (map (\<lambda>i. Invoke i msg #
                    (case (fs ! i) msg of
                       None \<Rightarrow> []
                     | Some err \<Rightarrow> [ConsoleError ''Error in message callback:'' [Exn err]]))
                [0..<length fs]),
      None)"
  using assms dispatch_functions [of 0 fs msg] by (simp add: onmessage_def)

theorem onmessage_delivers_in_registration_order_witness:
  \<open>sample_parse ''{"a":1}'' = Inr (Obj [(''a'', Num 1)]) \<and>
   onmessage sample_parse (open_client\<lparr>callback := map Function three_listeners\<rparr>) ''{"a":1}'' =
     (open_client\<lparr>callback := map Function three_listeners\<rparr>,
      [Invoke 0 (Obj [(''a'', Num 1)]),
       Invoke 1 (Obj [(''a'', Num 1)]),
       ConsoleError ''Error in message callback:'' [Exn (Raised ''boom'')],
       Invoke 2 (Obj [(''a'', Num 1)])],
      None)\<close>
proof -
  have p: \<open>sample_parse ''{"a":1}'' = Inr (Obj [(''a'', Num 1)])\<close>
    by (simp add: sample_parse_def)
  have cb: "callback (open_client\<lparr>callback := map Function three_listeners\<rparr>) =
      map Function three_listeners"
    by simp
  have n: "[0..<length three_listeners] = [0, 1, 2]"
    by (simp add: three_listeners_def upt_rec)
  from onmessage_delivers_in_registration_order
      [where parse = sample_parse and fs = three_listeners, OF p cb] p
  show ?thesis
    by (simp add: n) (simp add: three_listeners_def)
qed

text \<open>
  C6: a frame that \<^verbatim>\<open>JSON.parse\<close> rejects reaches no listener. The handler logs the
  parse error once, throws nothing, and leaves the handle, the queue and the listeners
  as they were.
\<close>

theorem onmessage_discards_malformed_frame:
  "parse msgJSON = Inl err \<Longrightarrow>
   onmessage parse c msgJSON = (c, [ConsoleError ''Failed to parse message:'' [Exn err]], None)"
  by (simp add: onmessage_def)

theorem onmessage_discards_malformed_frame_witness:
  "sample_parse ''not json'' = Inl SyntaxError \<and>
   onmessage sample_parse (open_client\<lparr>callback := map Function three_listeners\<rparr>) ''not json'' =
     (open_client\<lparr>callback := map Function three_listeners\<rparr>,
      [ConsoleError ''Failed to parse message:'' [Exn SyntaxError]], None)"
proof -
  have p: "sample_parse ''not json'' = Inl SyntaxError"
    by (simp add: sample_parse_def)
  from onmessage_discards_malformed_frame [where parse = sample_parse, OF p] p
  show ?thesis by simp
qed

subsection \<open>Connecting\<close>

text \<open>
  C7: when the token prompt returns no value, \<^verbatim>\<open>connect\<close> logs the failure and does
  nothing else: no socket is created, no timer is set, and the connection handle, the
  outbound queue and the listeners are what they were.
\<close>

theorem connect_without_token:
  "connect construct u None c =
     (c, [Prompt ''GET_MESSAGE_TOKEN'', ConsoleError ''Failed to get message token.'' []], None)"
  by (simp add: connect_def)

subsection \<open>The router\<close>

lemma openFile_with_folder:
  assumes "joinPath folderUri filePath = Inr fileUri"
  shows "openFile joinPath openEditor (folderUri # others) filePath =
     (case openEditor fileUri of
        None \<Rightarrow> ([OpenEditor fileUri True], Fulfilled)
      | Some err \<Rightarrow>
          ([OpenEditor fileUri True, LogError (''Failed to open '' @ filePath @ '' :'') [Exn err]],
           Fulfilled))"
  using assms by (simp add: openFile_def)

text \<open>
  C8: every failure of \<^verbatim>\<open>openFile\<close>, a missing workspace folder included, is to be
  logged, with nothing uncaught. With no workspace folder the code fails before its
  \<^verbatim>\<open>try\<close>: whatever the path, the editor is not asked, nothing is logged and the
  promise is rejected with the TypeError, which no caller handles.
\<close>

theorem openFile_without_workspace_folder:
  "openFile joinPath openEditor [] filePath = ([], Rejected TypeError)"
  by (simp add: openFile_def)

text \<open>
  C9: a message whose \<^verbatim>\<open>command\<close> is \<^verbatim>\<open>updateTheme\<close> makes the router call
  \<^verbatim>\<open>changeTheme\<close> with \<^verbatim>\<open>Visual Studio Light\<close> when its \<^verbatim>\<open>data\<close> is the
  string \<^verbatim>\<open>theme-2\<close> and with \<^verbatim>\<open>Default Dark+\<close> for any other data; a message
  (any value but \<^verbatim>\<open>null\<close> and \<^verbatim>\<open>undefined\<close>) whose \<^verbatim>\<open>command\<close> is none
  of the three recognized names makes it call nothing and throw nothing.
\<close>

theorem router_update_theme:
  "(get_prop msg ''command'' = Str ''updateTheme'' \<longrightarrow>
      router msg =
        Inr (Some (CallChangeTheme
          (if get_prop msg ''data'' = Str ''theme-2'' then ''Visual Studio Light''
           else ''Default Dark+'')))) \<and>
   (\<not> nullish msg \<and>
    get_prop msg ''command'' \<notin> {Str ''openFile'', Str ''updateTheme'', Str ''updateLocale''} \<longrightarrow>
      router msg = Inr None)"
  by (cases msg) (simp_all add: router_def nullish_def Let_def)

theorem router_update_theme_witness:
  "router (Obj [(''command'', Str ''updateTheme''), (''data'', Str ''theme-2'')]) =
     Inr (Some (CallChangeTheme ''Visual Studio Light'')) \<and>
   router (Obj [(''command'', Str ''updateTheme''), (''data'', Str ''anything-else'')]) =
     Inr (Some (CallChangeTheme ''Default Dark+'')) \<and>
   router (Obj [(''command'', Str ''reload''), (''data'', Null)]) = Inr None"
  using
    router_update_theme [of "Obj [(''command'', Str ''updateTheme''), (''data'', Str ''theme-2'')]"]
    router_update_theme [of "Obj [(''command'', Str ''updateTheme''), (''data'', Str ''anything-else'')]"]
    router_update_theme [of "Obj [(''command'', Str ''reload''), (''data'', Null)]"]
  by (simp add: nullish_def)

subsection \<open>Listeners\<close>

lemma callback_send [simp]: "callback (fst (send stringify c msg)) = callback c"
  by (simp add: send_def split: sum.splits)

lemma callback_send_each [simp]: "callback (fst (send_each stringify c msgs)) = callback c"
proof (induction msgs arbitrary: c)
  case Nil
  show ?case by simp
next
  case (Cons msg msgs)
  obtain c' es r where s: "send stringify c msg = (c', es, r)"
    by (cases "send stringify c msg") auto
  then have c': "callback c' = callback c"
    using callback_send [of stringify c msg] by simp
  show ?case
  proof (cases r)
    case None
    obtain c'' es' r' where s': "send_each stringify c' msgs = (c'', es', r')"
      by (cases "send_each stringify c' msgs") auto
    with Cons.IH [of c'] have "callback c'' = callback c'" by simp
    with s s' None c' show ?thesis by simp
  next
    case (Some err)
    with s c' show ?thesis by simp
  qed
qed

lemma callback_step:
  "callback (step P c ev) =
     callback c @
       (case ev of RegisterCallback cb \<Rightarrow> (if is_function cb then [cb] else []) | _ \<Rightarrow> [])"
  by (cases ev)
    (simp_all add: step_def connect_def onopen_def onclose_def onmessage_def onerror_def
      registerCallback_def set_readyState_def Let_def split: option.splits sum.splits)

lemma callback_run:
  "callback (run P c evs) = callback c @ filter is_function (registered evs)"
  unfolding run_def
proof (induction evs arbitrary: c)
  case Nil
  show ?case by simp
next
  case (Cons ev evs)
  show ?case
    by (cases ev) (simp_all add: Cons.IH callback_step)
qed

text \<open>
  C10: \<^verbatim>\<open>registerCallback\<close> appends a function to the listener list and returns; for
  an argument that is not a function it returns with the client untouched. Over any run
  of method calls and socket events the listener list is the list at the start followed
  by the functions registered during the run, in order, so it only grows; and from the
  constructor on every one of its elements is a function.
\<close>

theorem listeners_are_functions_and_only_grow:
  "registerCallback c (Function f) = (c\<lparr>callback := callback c @ [Function f]\<rparr>, [], None) \<and>
   registerCallback c (NotCallable v) = (c, [], None) \<and>
   callback (run P c evs) = callback c @ filter is_function (registered evs) \<and>
   list_all is_function (callback (run P (fst (MessageCenterClient p complete)) evs))"
proof -
  have "list_all is_function (filter is_function (registered evs))"
    by (simp add: list_all_iff)
  then show ?thesis
    by (simp add: registerCallback_def is_function_def callback_run MessageCenterClient_def)
qed

end
